theory Spec2Isabelle
  imports Complex_Main "HOL-Library.AList"
begin

section \<open>Cross-context execution (validation.py)\<close>

text \<open>
  The spawned execution unit runs \<open>_target_wrapper\<close>; the caller sees only what the unit
  put on its queue before it ended. How the job behaves inside the unit is given by an
  \<open>outcome\<close>: it returns a value, it raises an \<open>Exception\<close> with a message, or the
  unit ends while the job runs without putting anything on the queue (killed by a signal,
  \<open>os._exit\<close>, or an exception that is not an \<open>Exception\<close>, which the wrapper's
  \<open>except Exception\<close> does not catch). \<open>target_wrapper\<close> and \<open>run_in_ns\<close> below
  describe the calls that return with the unit's message delivered; the process, its
  pipe and the calls that never return are in \<open>target_wrapper_posting\<close>, \<open>unit_exit\<close>
  and \<open>run_in_ns_call\<close>.
\<close>

datatype 'v outcome = Returns 'v | Raises string | Dies

text \<open>
  A queue message is the tagged pair the wrapper puts: \<open>(True, result)\<close> is \<open>Ok result\<close>
  and \<open>(False, text)\<close> is \<open>Err text\<close>.
\<close>

datatype 'v message = Ok 'v | Err string

text \<open>
  The part of the operating system the wrapper consults: whether
  \<open>/var/run/netns/<name>\<close> exists, and whether opening it and \<open>netns.setns\<close> raise
  (\<open>Some\<close> of the exception's text).
\<close>

record os_env =
  ns_exists :: "string \<Rightarrow> bool"
  setns_error :: "string \<Rightarrow> string option"

text \<open>
  What the coordinating process and the units do, in program order. \<open>Start\<close>,
  \<open>Join\<close> and \<open>Terminate\<close> are the calls on a \<open>multiprocessing.Process\<close> whose wrapper
  targets the named namespace; \<open>Sleep\<close> is \<open>time.sleep\<close>; \<open>EnterNs\<close> and \<open>Invoke\<close>
  happen inside a unit (\<open>netns.setns\<close> and the call of the job).
\<close>

datatype event =
    Start string
  | Join string
  | Terminate string
  | Sleep nat
  | EnterNs string
  | Invoke string

text \<open>\<open>_target_wrapper\<close>: the events inside the unit and the queue it leaves behind.\<close>

definition target_wrapper :: "os_env \<Rightarrow> string \<Rightarrow> 'v outcome \<Rightarrow> event list \<times> 'v message list" where
  "target_wrapper env ns_name target =
     (if \<not> ns_exists env ns_name then
        ([], [Err (''Namespace '' @ ns_name @ '' not found'')])
      else case setns_error env ns_name of
        Some e \<Rightarrow> ([], [Err e])
      | None \<Rightarrow>
          (case target of
             Returns v \<Rightarrow> ([EnterNs ns_name, Invoke ns_name], [Ok v])
           | Raises e \<Rightarrow> ([EnterNs ns_name, Invoke ns_name], [Err e])
           | Dies \<Rightarrow> ([EnterNs ns_name, Invoke ns_name], [])))"

text \<open>
  \<open>run_in_ns\<close>: the process is started and joined whatever the namespace; \<open>Inl\<close> is the
  text of the raised \<open>Exception\<close>, \<open>Inr\<close> the returned value. The unit's events lie
  between \<open>Start\<close> and \<open>Join\<close>, since the caller blocks in \<open>p.join()\<close>.
\<close>

definition run_in_ns :: "os_env \<Rightarrow> string \<Rightarrow> 'v outcome \<Rightarrow> event list \<times> (string + 'v)" where
  "run_in_ns env ns_name target =
     (let (unit_events, queue) = target_wrapper env ns_name target;
          trace = [Start ns_name] @ unit_events @ [Join ns_name]
      in case queue of
           [] \<Rightarrow> (trace, Inl ''Process died without returning result'')
         | Err result # _ \<Rightarrow>
             (trace, Inl (''Error in namespace '' @ ns_name @ '': '' @ result))
         | Ok result # _ \<Rightarrow> (trace, Inr result))"

subsection \<open>The process and its pipe\<close>

text \<open>
  \<open>run_in_ns\<close> joins the process before it reads the queue, and neither call has a
  timeout. A \<open>multiprocessing.Queue\<close> pickles a message in a feeder thread of the
  unit and writes it to a pipe; the unit exits only when the feeder has flushed. So
  three things decide what the caller sees: whether the job returns at all, whether its
  result can be pickled (a message that cannot is dropped, and the unit exits with an
  empty queue), and whether the pickled message fits into the pipe while nobody reads
  (one that does not blocks the unit's exit, and with it \<open>p.join()\<close>). The last two
  are properties of the values and of the operating system, and are parameters here.
\<close>

record 'v pipe =
  picklable :: "'v \<Rightarrow> bool"
  fits :: "'v message \<Rightarrow> bool"

text \<open>
  What \<open>_target_wrapper\<close> does up to its \<open>queue.put\<close>, for a job that ends as
  \<open>Some outcome\<close> or never returns (\<open>None\<close>): it posts a message, it dies silently,
  or it never gets to post.
\<close>

datatype 'v posting = Posts "'v message" | Silent | NeverReturns

definition target_wrapper_posting ::
  "os_env \<Rightarrow> string \<Rightarrow> 'v outcome option \<Rightarrow> event list \<times> 'v posting" where
  "target_wrapper_posting env ns_name target =
     (if \<not> ns_exists env ns_name then
        ([], Posts (Err (''Namespace '' @ ns_name @ '' not found'')))
      else case setns_error env ns_name of
        Some e \<Rightarrow> ([], Posts (Err e))
      | None \<Rightarrow>
          (case target of
             None \<Rightarrow> ([EnterNs ns_name, Invoke ns_name], NeverReturns)
           | Some (Returns v) \<Rightarrow> ([EnterNs ns_name, Invoke ns_name], Posts (Ok v))
           | Some (Raises e) \<Rightarrow> ([EnterNs ns_name, Invoke ns_name], Posts (Err e))
           | Some Dies \<Rightarrow> ([EnterNs ns_name, Invoke ns_name], Silent)))"

text \<open>
  The queue the unit leaves behind when it exits, or \<open>None\<close> when it never exits. The
  text of an exception is a string and can always be pickled.
\<close>

definition unit_exit :: "'v pipe \<Rightarrow> 'v posting \<Rightarrow> 'v message list option" where
  "unit_exit P posting =
     (case posting of
        NeverReturns \<Rightarrow> None
      | Silent \<Rightarrow> Some []
      | Posts (Err e) \<Rightarrow> (if fits P (Err e) then Some [Err e] else None)
      | Posts (Ok v) \<Rightarrow>
          (if \<not> picklable P v then Some []
           else if fits P (Ok v) then Some [Ok v]
           else None))"

text \<open>
  \<open>run_in_ns\<close> with the process made explicit: the trace, and the result of the call,
  \<open>None\<close> when \<open>p.join()\<close> never returns (the trace then has no \<open>Join\<close>).
\<close>

definition run_in_ns_call ::
  "'v pipe \<Rightarrow> os_env \<Rightarrow> string \<Rightarrow> 'v outcome option \<Rightarrow> event list \<times> (string + 'v) option" where
  "run_in_ns_call P env ns_name target =
     (let (unit_events, posting) = target_wrapper_posting env ns_name target in
      case unit_exit P posting of
        None \<Rightarrow> ([Start ns_name] @ unit_events, None)
      | Some queue \<Rightarrow>
          ([Start ns_name] @ unit_events @ [Join ns_name],
           Some (case queue of
                   [] \<Rightarrow> Inl ''Process died without returning result''
                 | Err result # _ \<Rightarrow> Inl (''Error in namespace '' @ ns_name @ '': '' @ result)
                 | Ok result # _ \<Rightarrow> Inr result)))"

text \<open>
  A pipe for evaluation: the values are byte strings, taken to pickle to themselves, and
  the pipe holds 64 KiB.
\<close>

definition byte_pipe :: "string pipe" where
  "byte_pipe =
     \<lparr> picklable = (\<lambda>_. True),
       fits = (\<lambda>m. case m of Ok v \<Rightarrow> length v \<le> 65536 | Err e \<Rightarrow> length e \<le> 65536) \<rparr>"

section \<open>Protocol assertions (validation.py)\<close>

text \<open>
  The two assertions raise \<open>AssertionError\<close> themselves and let the \<open>Exception\<close> of
  \<open>run_in_ns\<close> through. The capture unit of node B runs beside the coordinator: only its
  queue enters the coordinator's result, and the coordinator's trace holds the
  coordinator's own calls and the events of the stimulus unit it waits for.
  \<open>sniff\<close> is how the capture job ends in node B and \<open>send\<close> how the stimulus job ends in
  node A; the destination address, port and interface only parametrise those jobs.
\<close>

datatype failure = AssertionError string | Exception string

fun dec :: "nat \<Rightarrow> string" where
  "dec n = (if n < 10 then [char_of (48 + n)] else dec (n div 10) @ [char_of (48 + n mod 10)])"

declare dec.simps [simp del]

definition test_tcp_handshake ::
  "os_env \<Rightarrow> string \<Rightarrow> string \<Rightarrow> 'p list outcome \<Rightarrow> 'p outcome \<Rightarrow> event list \<times> (failure + bool)" where
  "test_tcp_handshake env node_a node_b sniff send =
     (let queue_b = snd (target_wrapper env node_b sniff);
          started = [Start node_b, Sleep 1];
          (sent, r) = run_in_ns env node_a send
      in case r of
           Inl e \<Rightarrow> (started @ sent @ [Terminate node_b], Inl (Exception e))
         | Inr _ \<Rightarrow>
             (started @ sent @ [Join node_b],
              case queue_b of
                [] \<Rightarrow> Inl (AssertionError ''Sniffer on Node B failed to capture packet or timeout.'')
              | Err packets # _ \<Rightarrow> Inl (AssertionError (''Sniffer error on Node B: '' @ packets))
              | Ok packets # _ \<Rightarrow>
                  (if packets = [] then Inl (AssertionError ''TCP SYN packet not received at Node B'')
                   else Inr True)))"

definition test_mtu_fragmentation ::
  "os_env \<Rightarrow> string \<Rightarrow> string \<Rightarrow> 'p list outcome \<Rightarrow> 'p outcome \<Rightarrow> event list \<times> (failure + bool)" where
  "test_mtu_fragmentation env node_a node_b sniff send =
     (let queue_b = snd (target_wrapper env node_b sniff);
          started = [Start node_b, Sleep 1];
          (sent, r) = run_in_ns env node_a send
      in case r of
           Inl e \<Rightarrow> (started @ sent, Inl (Exception e))
         | Inr _ \<Rightarrow>
             (started @ sent @ [Join node_b],
              case queue_b of
                [] \<Rightarrow> Inl (AssertionError ''Sniffer on Node B failed.'')
              | Err packets # _ \<Rightarrow> Inl (AssertionError (''Sniffer error: '' @ packets))
              | Ok packets # _ \<Rightarrow>
                  (if length packets < 2 then
                     Inl (AssertionError (''Expected fragmentation (>= 2 packets), got ''
                                          @ dec (length packets)))
                   else Inr True)))"

section \<open>Impairment profiles (impairment.py)\<close>

text \<open>
  A profile is a Python dictionary with string keys. The values a profile holds, by the
  docstring of \<open>apply_profile\<close> and by its callers: \<open>None\<close>, integers, floats, strings
  and dictionaries. A dictionary is an association list in insertion order, looked up
  with \<open>map_of\<close>. The type \<open>'f\<close> stands for Python's \<open>float\<close>.
\<close>

datatype 'f pyval =
    PNone
  | PInt int
  | PFloat 'f
  | PStr string
  | PDict "(string \<times> 'f pyval) list"

type_synonym 'f pydict = "(string \<times> 'f pyval) list"

text \<open>
  The built-in operations on floats that \<open>apply_profile\<close> reaches through \<open>if x:\<close>,
  \<open>str(x)\<close> and \<open>float(x)\<close>. They belong to the interpreter and are parameters here:
  \<open>float_of_int\<close> and \<open>float_of_str\<close> return \<open>Inl\<close> of the exception's text where
  \<open>float\<close> raises (\<open>OverflowError\<close>, \<open>ValueError\<close>).
\<close>

record 'f builtins =
  float_nonzero :: "'f \<Rightarrow> bool"
  float_repr :: "'f \<Rightarrow> string"
  float_of_int :: "int \<Rightarrow> string + 'f"
  float_of_str :: "string \<Rightarrow> string + 'f"

text \<open>\<open>d.get(k)\<close> and \<open>d.get(k, default)\<close>.\<close>

definition py_get :: "'f pydict \<Rightarrow> string \<Rightarrow> 'f pyval" where
  "py_get d k = (case map_of d k of None \<Rightarrow> PNone | Some v \<Rightarrow> v)"

definition py_get_default :: "'f pydict \<Rightarrow> string \<Rightarrow> 'f pyval \<Rightarrow> 'f pyval" where
  "py_get_default d k dflt = (case map_of d k of None \<Rightarrow> dflt | Some v \<Rightarrow> v)"

text \<open>Truth value of \<open>if x:\<close>.\<close>

fun truthy :: "'f builtins \<Rightarrow> 'f pyval \<Rightarrow> bool" where
  "truthy B PNone = False"
| "truthy B (PInt n) = (n \<noteq> 0)"
| "truthy B (PFloat x) = float_nonzero B x"
| "truthy B (PStr s) = (s \<noteq> [])"
| "truthy B (PDict d) = (d \<noteq> [])"

definition dec_int :: "int \<Rightarrow> string" where
  "dec_int n = (if n < 0 then CHR ''-'' # dec (nat (- n)) else dec (nat n))"

text \<open>\<open>float(x)\<close>: \<open>Inl\<close> is the text of the exception.\<close>

fun py_float :: "'f builtins \<Rightarrow> 'f pyval \<Rightarrow> string + 'f" where
  "py_float B (PInt n) = float_of_int B n"
| "py_float B (PFloat x) = Inr x"
| "py_float B (PStr s) = float_of_str B s"
| "py_float B PNone =
     Inl (''float() argument must be a string or a real number, not 'NoneType'' @ [CHR 0x27])"
| "py_float B (PDict d) =
     Inl (''float() argument must be a string or a real number, not 'dict'' @ [CHR 0x27])"

text \<open>
  Log records, one constructor for each logging call of the three modules, holding the
  values its f-string interpolates.
\<close>

datatype 'f log_entry =
    ReorderDelayAdded string
  | NoValidImpairments string
  | AppliedProfile "'f pydict" string "string option"
  | ApplyFailed string string
  | ClearedImpairments string "string option"
  | CouldNotClear string
  | CleaningUp
  | RemovedInterface string
  | RemovedNamespace string
  | RemoveNamespaceFailed string string
  | Linked string string string string
  | LinkFailed string string string

datatype level = DEBUG | INFO | WARNING | ERROR

fun level_of :: "'f log_entry \<Rightarrow> level" where
  "level_of (ReorderDelayAdded _) = WARNING"
| "level_of (NoValidImpairments _) = INFO"
| "level_of (AppliedProfile _ _ _) = INFO"
| "level_of (ApplyFailed _ _) = ERROR"
| "level_of (ClearedImpairments _ _) = INFO"
| "level_of (CouldNotClear _) = DEBUG"
| "level_of CleaningUp = INFO"
| "level_of (RemovedInterface _) = INFO"
| "level_of (RemovedNamespace _) = INFO"
| "level_of (RemoveNamespaceFailed _ _) = WARNING"
| "level_of (Linked _ _ _ _) = INFO"
| "level_of (LinkFailed _ _ _) = ERROR"

text \<open>
  The translation of a profile into \<open>netem_options\<close> (the first part of
  \<open>apply_profile\<close>, up to the test \<open>if not netem_options\<close>), in three steps as the source
  has them. Assignment to a dictionary key is \<open>AList.update\<close>: it replaces the value of a
  key that is present and appends a new key. On the branch where \<open>latency\<close> is not a
  dictionary the delay is \<open>str(latency)\<close>: the string itself, the decimal digits of an
  integer, the \<open>repr\<close> of a float; \<open>None\<close> is not truthy and never gets there.
\<close>

definition parse_latency :: "'f builtins \<Rightarrow> 'f pydict \<Rightarrow> 'f pydict \<Rightarrow> 'f pydict" where
  "parse_latency B profile netem_options =
     (let latency = py_get profile ''latency'' in
      if truthy B latency then
        (case latency of
           PDict d \<Rightarrow>
             AList.update ''jitter'' (py_get_default d ''jitter'' (PStr ''0ms''))
               (AList.update ''delay'' (py_get_default d ''delay'' (PStr ''0ms'')) netem_options)
         | PStr s \<Rightarrow> AList.update ''delay'' (PStr s) netem_options
         | PInt n \<Rightarrow> AList.update ''delay'' (PStr (dec_int n)) netem_options
         | PFloat x \<Rightarrow> AList.update ''delay'' (PStr (float_repr B x)) netem_options
         | PNone \<Rightarrow> netem_options)
      else netem_options)"

definition parse_loss :: "'f builtins \<Rightarrow> 'f pydict \<Rightarrow> 'f pydict \<Rightarrow> string + 'f pydict" where
  "parse_loss B profile netem_options =
     (let loss = py_get profile ''loss'' in
      if loss \<noteq> PNone then
        (case py_float B loss of
           Inl e \<Rightarrow> Inl e
         | Inr x \<Rightarrow> Inr (AList.update ''loss'' (PFloat x) netem_options))
      else Inr netem_options)"

definition parse_reorder ::
  "'f builtins \<Rightarrow> string \<Rightarrow> 'f pydict \<Rightarrow> 'f pydict \<Rightarrow> string + ('f pydict \<times> 'f log_entry list)" where
  "parse_reorder B interface profile netem_options =
     (let reorder = py_get profile ''reorder'' in
      if reorder \<noteq> PNone then
        (case py_float B reorder of
           Inl e \<Rightarrow> Inl e
         | Inr x \<Rightarrow>
             (let opts = AList.update ''reorder'' (PFloat x) netem_options in
              if ''delay'' \<notin> fst ` set opts then
                Inr (AList.update ''delay'' (PStr ''10ms'') opts, [ReorderDelayAdded interface])
              else Inr (opts, [])))
      else Inr (netem_options, []))"

definition translate_profile ::
  "'f builtins \<Rightarrow> string \<Rightarrow> 'f pydict \<Rightarrow> string + ('f pydict \<times> 'f log_entry list)" where
  "translate_profile B interface profile =
     (case parse_loss B profile (parse_latency B profile []) of
        Inl e \<Rightarrow> Inl e
      | Inr opts \<Rightarrow> parse_reorder B interface profile opts)"

text \<open>
  An instance of the built-ins for evaluation at concrete profiles, with floats
  represented by rationals. It agrees with the interpreter on the integers that a float
  holds exactly (magnitude at most \<open>2 ^ 53\<close>); it is used at such integers only, and
  leaves every other conversion as an error.
\<close>

definition exact_builtins :: "rat builtins" where
  "exact_builtins =
     \<lparr> float_nonzero = (\<lambda>x. x \<noteq> 0),
       float_repr = (\<lambda>x. ''<float>''),
       float_of_int = (\<lambda>n. if \<bar>n\<bar> \<le> 2 ^ 53 then Inr (of_int n) else Inl ''not modelled''),
       float_of_str = (\<lambda>s. Inl ''not modelled'') \<rparr>"

section \<open>The network control capability\<close>

text \<open>
  The operations of pyroute2 that the harness calls, over a host state \<open>'h\<close>. Each
  operation that changes the host returns \<open>Some\<close> of the exception's text when it raises,
  and the host it leaves. \<open>ns_open\<close> is \<open>NetNS(name)\<close>; a context \<open>None\<close> is the default
  namespace (an \<open>IPRoute\<close> handle) and \<open>Some ns\<close> a \<open>NetNS\<close> handle. Opening an
  \<open>IPRoute\<close> handle, leaving a \<open>with\<close> block and closing the \<open>NDB\<close> change nothing the
  harness reads and are taken not to raise.

  A traffic-control request is passed as the caller wrote it. pyroute2 declares
  \<open>tc(command, kind=None, index=0, handle=0, **kwarg)\<close>: the second positional argument
  is the kind of queueing discipline, the third the interface index, and every other
  keyword goes into \<open>kwarg\<close>.
\<close>

record 'f tc_request =
  tc_command :: string
  tc_kind :: "string option"
  tc_index :: nat
  tc_handle :: "'f pyval"
  tc_kwarg :: "'f pydict"

record ('h, 'f) netctl =
  ns_open :: "string \<Rightarrow> 'h \<Rightarrow> string option \<times> 'h"
  link_lookup :: "string option \<Rightarrow> string \<Rightarrow> 'h \<Rightarrow> string + nat list"
  link_add_veth :: "string \<Rightarrow> string \<Rightarrow> 'h \<Rightarrow> string option \<times> 'h"
  link_set_ns :: "nat \<Rightarrow> string \<Rightarrow> 'h \<Rightarrow> string option \<times> 'h"
  link_up :: "string \<Rightarrow> nat \<Rightarrow> 'h \<Rightarrow> string option \<times> 'h"
  addr_add :: "string \<Rightarrow> nat \<Rightarrow> string \<Rightarrow> int \<Rightarrow> 'h \<Rightarrow> string option \<times> 'h"
  link_del :: "string \<Rightarrow> 'h \<Rightarrow> string option \<times> 'h"
  netns_remove :: "string \<Rightarrow> 'h \<Rightarrow> string option \<times> 'h"
  tc :: "string option \<Rightarrow> 'f tc_request \<Rightarrow> 'h \<Rightarrow> string option \<times> 'h"

section \<open>The network conditioner (impairment.py)\<close>

text \<open>
  \<open>self.namespace\<close> is \<open>None\<close> or a string; \<open>_get_ip_route\<close> tests its truth value, so
  the empty string selects the default namespace too.
\<close>

definition conditioner_ctx :: "string option \<Rightarrow> string option" where
  "conditioner_ctx namespace =
     (case namespace of None \<Rightarrow> None | Some ns \<Rightarrow> if ns \<noteq> [] then Some ns else None)"

definition get_ip_route :: "('h, 'f) netctl \<Rightarrow> string option \<Rightarrow> 'h \<Rightarrow> string option \<times> 'h" where
  "get_ip_route ctl namespace h =
     (case conditioner_ctx namespace of None \<Rightarrow> (None, h) | Some ns \<Rightarrow> ns_open ctl ns h)"

text \<open>
  The two requests of the conditioner, argument by argument. \<open>ip.tc('del', 'root', idx)\<close>
  passes \<open>'root'\<close> in the position of the kind.
  \<open>ip.tc('add', 'netem', handle='1:', parent='root', dev=idx, **netem_options)\<close> passes no
  index, so the index is the default 0, and the keywords \<open>parent\<close> (the string
  \<open>'root'\<close>) and \<open>dev\<close> go into \<open>kwarg\<close> before the options.
\<close>

definition del_root_request :: "nat \<Rightarrow> 'f tc_request" where
  "del_root_request idx =
     \<lparr> tc_command = ''del'', tc_kind = Some ''root'', tc_index = idx, tc_handle = PInt 0,
       tc_kwarg = [] \<rparr>"

definition add_netem_request :: "nat \<Rightarrow> 'f pydict \<Rightarrow> 'f tc_request" where
  "add_netem_request idx netem_options =
     \<lparr> tc_command = ''add'', tc_kind = Some ''netem'', tc_index = 0, tc_handle = PStr ''1:'',
       tc_kwarg = [(''parent'', PStr ''root''), (''dev'', PInt (int idx))] @ netem_options \<rparr>"

text \<open>
  The \<open>try\<close> block of \<open>apply_profile\<close>: the raised exception's text (if any), the host
  and the log records written inside the block.
\<close>

definition apply_netem ::
  "('h, 'f) netctl \<Rightarrow> string option \<Rightarrow> string \<Rightarrow> 'f pydict \<Rightarrow> 'f pydict \<Rightarrow> 'h
     \<Rightarrow> string option \<times> 'h \<times> 'f log_entry list" where
  "apply_netem ctl namespace interface profile netem_options h =
     (case get_ip_route ctl namespace h of
        (Some e, h1) \<Rightarrow> (Some e, h1, [])
      | (None, h1) \<Rightarrow>
          (case link_lookup ctl (conditioner_ctx namespace) interface h1 of
             Inl e \<Rightarrow> (Some e, h1, [])
           | Inr [] \<Rightarrow> (Some (''Interface '' @ interface @ '' not found.''), h1, [])
           | Inr (idx # _) \<Rightarrow>
               (let h2 = snd (tc ctl (conditioner_ctx namespace) (del_root_request idx) h1) in
                case tc ctl (conditioner_ctx namespace) (add_netem_request idx netem_options) h2 of
                  (Some e, h3) \<Rightarrow> (Some e, h3, [])
                | (None, h3) \<Rightarrow> (None, h3, [AppliedProfile profile interface namespace]))))"

text \<open>
  \<open>apply_profile\<close>: an exception of \<open>float\<close> leaves the function before anything is
  logged; an empty translation is logged and skipped; an exception inside the \<open>try\<close>
  block is logged and raised again.
\<close>

definition apply_profile ::
  "'f builtins \<Rightarrow> ('h, 'f) netctl \<Rightarrow> string option \<Rightarrow> string \<Rightarrow> 'f pydict \<Rightarrow> 'h
     \<Rightarrow> string option \<times> 'h \<times> 'f log_entry list" where
  "apply_profile B ctl namespace interface profile h =
     (case translate_profile B interface profile of
        Inl e \<Rightarrow> (Some e, h, [])
      | Inr (netem_options, warned) \<Rightarrow>
          (if netem_options = [] then (None, h, warned @ [NoValidImpairments interface])
           else case apply_netem ctl namespace interface profile netem_options h of
                  (Some e, h', logged) \<Rightarrow> (Some e, h', warned @ logged @ [ApplyFailed interface e])
                | (None, h', logged) \<Rightarrow> (None, h', warned @ logged)))"

text \<open>The \<open>try\<close> block of \<open>clear_impairments\<close>.\<close>

definition clear_netem ::
  "('h, 'f) netctl \<Rightarrow> string option \<Rightarrow> string \<Rightarrow> 'h \<Rightarrow> string option \<times> 'h \<times> 'f log_entry list" where
  "clear_netem ctl namespace interface h =
     (case get_ip_route ctl namespace h of
        (Some e, h1) \<Rightarrow> (Some e, h1, [])
      | (None, h1) \<Rightarrow>
          (case link_lookup ctl (conditioner_ctx namespace) interface h1 of
             Inl e \<Rightarrow> (Some e, h1, [])
           | Inr [] \<Rightarrow> (None, h1, [])
           | Inr (idx # _) \<Rightarrow>
               (case tc ctl (conditioner_ctx namespace) (del_root_request idx) h1 of
                  (Some e, h2) \<Rightarrow> (Some e, h2, [])
                | (None, h2) \<Rightarrow> (None, h2, [ClearedImpairments interface namespace]))))"

text \<open>\<open>clear_impairments\<close>: the handler turns every exception into a debug record.\<close>

definition clear_impairments ::
  "('h, 'f) netctl \<Rightarrow> string option \<Rightarrow> string \<Rightarrow> 'h \<Rightarrow> string option \<times> 'h \<times> 'f log_entry list" where
  "clear_impairments ctl namespace interface h =
     (case clear_netem ctl namespace interface h of
        (Some e, h', logged) \<Rightarrow> (None, h', logged @ [CouldNotClear e])
      | (None, h', logged) \<Rightarrow> (None, h', logged))"

section \<open>The namespace manager (topology.py)\<close>

record manager =
  created_namespaces :: "string list"
  created_interfaces :: "string list"

text \<open>\<open>name[-4:]\<close>: the last four characters, or the whole name when it is shorter.\<close>

definition last4 :: "string \<Rightarrow> string" where
  "last4 name = drop (length name - 4) name"

text \<open>
  Sequencing inside a \<open>try\<close> block: the first exception ends the block. \<open>call\<close> runs an
  operation that returns nothing, \<open>first_index\<close> is \<open>link_lookup(...)[0]\<close>, which raises
  \<open>IndexError\<close> on the empty list.
\<close>

definition bind_act ::
  "('h \<Rightarrow> (string + 'a) \<times> 'h) \<Rightarrow> ('a \<Rightarrow> 'h \<Rightarrow> (string + 'b) \<times> 'h) \<Rightarrow> 'h \<Rightarrow> (string + 'b) \<times> 'h" where
  "bind_act m f h = (case m h of (Inl e, h') \<Rightarrow> (Inl e, h') | (Inr x, h') \<Rightarrow> f x h')"

definition call :: "('h \<Rightarrow> string option \<times> 'h) \<Rightarrow> 'h \<Rightarrow> (string + unit) \<times> 'h" where
  "call m h = (case m h of (Some e, h') \<Rightarrow> (Inl e, h') | (None, h') \<Rightarrow> (Inr (), h'))"

definition first_index ::
  "('h, 'f) netctl \<Rightarrow> string option \<Rightarrow> string \<Rightarrow> 'h \<Rightarrow> (string + nat) \<times> 'h" where
  "first_index ctl ctx ifname h =
     (case link_lookup ctl ctx ifname h of
        Inl e \<Rightarrow> (Inl e, h)
      | Inr [] \<Rightarrow> (Inl ''list index out of range'', h)
      | Inr (idx # _) \<Rightarrow> (Inr idx, h))"

text \<open>The block \<open>with NetNS(node) as ns\<close> of \<open>link_nodes\<close>, the same for both nodes.\<close>

definition configure_interface ::
  "('h, 'f) netctl \<Rightarrow> string \<Rightarrow> string \<Rightarrow> string \<Rightarrow> int \<Rightarrow> 'h \<Rightarrow> (string + unit) \<times> 'h" where
  "configure_interface ctl node ifname ip subnet_mask =
     bind_act (call (ns_open ctl node)) (\<lambda>_.
     bind_act (first_index ctl (Some node) ifname) (\<lambda>idx.
     bind_act (call (link_up ctl node idx)) (\<lambda>_.
     bind_act (call (addr_add ctl node idx ip subnet_mask)) (\<lambda>_.
     bind_act (first_index ctl (Some node) ''lo'') (\<lambda>lo_idx.
     call (link_up ctl node lo_idx))))))"

text \<open>What \<open>link_nodes\<close> does after the pair is created and its first name registered.\<close>

definition move_and_configure ::
  "('h, 'f) netctl \<Rightarrow> string \<Rightarrow> string \<Rightarrow> string \<Rightarrow> string \<Rightarrow> string \<Rightarrow> string \<Rightarrow> int
     \<Rightarrow> 'h \<Rightarrow> (string + unit) \<times> 'h" where
  "move_and_configure ctl node_a node_b if_a_name if_b_name ip_a ip_b subnet_mask =
     bind_act (first_index ctl None if_a_name) (\<lambda>idx_a.
     bind_act (first_index ctl None if_b_name) (\<lambda>idx_b.
     bind_act (call (link_set_ns ctl idx_a node_a)) (\<lambda>_.
     bind_act (call (link_set_ns ctl idx_b node_b)) (\<lambda>_.
     bind_act (configure_interface ctl node_a if_a_name ip_a subnet_mask) (\<lambda>_.
     configure_interface ctl node_b if_b_name ip_b subnet_mask)))))"

text \<open>
  \<open>link_nodes\<close>: the raised exception's text (if any), the host, the manager and the log.
  Only \<open>if_a_name\<close> is appended to \<open>created_interfaces\<close>, right after the pair is created.
\<close>

definition link_nodes ::
  "('h, 'f) netctl \<Rightarrow> manager \<Rightarrow> string \<Rightarrow> string \<Rightarrow> string \<Rightarrow> string \<Rightarrow> int \<Rightarrow> 'h
     \<Rightarrow> string option \<times> 'h \<times> manager \<times> 'f log_entry list" where
  "link_nodes ctl mgr node_a node_b ip_a ip_b subnet_mask h =
     (let if_a_name = ''veth-'' @ last4 node_a;
          if_b_name = ''veth-'' @ last4 node_b
      in case link_add_veth ctl if_a_name if_b_name h of
           (Some e, h1) \<Rightarrow> (Some e, h1, mgr, [LinkFailed node_a node_b e])
         | (None, h1) \<Rightarrow>
             (let mgr1 = mgr\<lparr>created_interfaces := created_interfaces mgr @ [if_a_name]\<rparr> in
              case move_and_configure ctl node_a node_b if_a_name if_b_name ip_a ip_b subnet_mask h1 of
                (Inl e, h2) \<Rightarrow> (Some e, h2, mgr1, [LinkFailed node_a node_b e])
              | (Inr _, h2) \<Rightarrow> (None, h2, mgr1, [Linked node_a ip_a node_b ip_b])))"







section \<open>A reference host\<close>

text \<open>
  Modelled from the spec: the network control capability of section 6, a collaborator
  outside the repository (create and destroy a namespace, create a veth-style link, move
  an interface into a namespace, set it up, give it an address, install and remove one
  emulation configuration on an interface, each call failing with a not-found, an
  already-exists or a permission error), with the call format of pyroute2. An interface has an index, a name, the
  namespace it lives in (\<open>None\<close> is the default namespace), the index of its veth peer,
  and at most one root emulation configuration. Administrative state and addresses are
  not stored. An unprivileged caller can look up but not change anything.
\<close>

record 'f kiface =
  k_index :: nat
  k_name :: string
  k_ns :: "string option"
  k_peer :: "nat option"
  k_qdisc :: "'f pydict option"

record 'f khost =
  k_netns :: "string list"
  k_links :: "'f kiface list"
  k_privileged :: bool

definition eperm :: string where
  "eperm = ''Operation not permitted''"

definition enodev :: string where
  "enodev = ''No such device''"

definition k_fresh :: "'f khost \<Rightarrow> nat" where
  "k_fresh h = Suc (fold max (map k_index (k_links h)) 1)"

definition k_at :: "string option \<Rightarrow> nat \<Rightarrow> 'f kiface \<Rightarrow> bool" where
  "k_at ctx idx i = (k_index i = idx \<and> k_ns i = ctx)"

definition k_named :: "string option \<Rightarrow> string \<Rightarrow> 'f kiface \<Rightarrow> bool" where
  "k_named ctx name i = (k_name i = name \<and> k_ns i = ctx)"

definition k_loopback :: "string \<Rightarrow> 'f kiface" where
  "k_loopback ns = \<lparr>k_index = 1, k_name = ''lo'', k_ns = Some ns, k_peer = None, k_qdisc = None\<rparr>"

definition k_ns_open :: "string \<Rightarrow> 'f khost \<Rightarrow> string option \<times> 'f khost" where
  "k_ns_open ns h =
     (if ns \<in> set (k_netns h) then (None, h)
      else if \<not> k_privileged h then (Some eperm, h)
      else (None, h\<lparr>k_netns := k_netns h @ [ns], k_links := k_links h @ [k_loopback ns]\<rparr>))"

definition k_link_lookup :: "string option \<Rightarrow> string \<Rightarrow> 'f khost \<Rightarrow> string + nat list" where
  "k_link_lookup ctx name h = Inr (map k_index (filter (k_named ctx name) (k_links h)))"

definition k_link_add_veth :: "string \<Rightarrow> string \<Rightarrow> 'f khost \<Rightarrow> string option \<times> 'f khost" where
  "k_link_add_veth a b h =
     (if \<not> k_privileged h then (Some eperm, h)
      else if a = b \<or> (\<exists>i \<in> set (k_links h). k_named None a i \<or> k_named None b i)
        then (Some ''File exists'', h)
      else (let n = k_fresh h in
            (None, h\<lparr>k_links := k_links h @
               [\<lparr>k_index = n, k_name = a, k_ns = None, k_peer = Some (Suc n), k_qdisc = None\<rparr>,
                \<lparr>k_index = Suc n, k_name = b, k_ns = None, k_peer = Some n, k_qdisc = None\<rparr>]\<rparr>)))"

definition k_link_set_ns :: "nat \<Rightarrow> string \<Rightarrow> 'f khost \<Rightarrow> string option \<times> 'f khost" where
  "k_link_set_ns idx ns h =
     (if \<not> k_privileged h then (Some eperm, h)
      else if ns \<notin> set (k_netns h) then (Some ''No such file or directory'', h)
      else if \<not> (\<exists>i \<in> set (k_links h). k_at None idx i) then (Some enodev, h)
      else (None, h\<lparr>k_links :=
              map (\<lambda>i. if k_at None idx i then i\<lparr>k_ns := Some ns\<rparr> else i) (k_links h)\<rparr>))"

definition k_link_up :: "string \<Rightarrow> nat \<Rightarrow> 'f khost \<Rightarrow> string option \<times> 'f khost" where
  "k_link_up ns idx h =
     (if \<not> k_privileged h then (Some eperm, h)
      else if \<not> (\<exists>i \<in> set (k_links h). k_at (Some ns) idx i) then (Some enodev, h)
      else (None, h))"

definition k_addr_add :: "string \<Rightarrow> nat \<Rightarrow> string \<Rightarrow> int \<Rightarrow> 'f khost \<Rightarrow> string option \<times> 'f khost" where
  "k_addr_add ns idx address subnet_mask h =
     (if \<not> k_privileged h then (Some eperm, h)
      else if \<not> (\<exists>i \<in> set (k_links h). k_at (Some ns) idx i) then (Some enodev, h)
      else (None, h))"

text \<open>Removing an interface removes its veth peer with it.\<close>

definition k_without :: "'f kiface list \<Rightarrow> 'f kiface list \<Rightarrow> 'f kiface list" where
  "k_without victims links =
     filter (\<lambda>i. i \<notin> set victims \<and> Some (k_index i) \<notin> set (map k_peer victims)) links"

definition k_link_del :: "string \<Rightarrow> 'f khost \<Rightarrow> string option \<times> 'f khost" where
  "k_link_del name h =
     (if \<not> k_privileged h then (Some eperm, h)
      else case filter (k_named None name) (k_links h) of
             [] \<Rightarrow> (Some enodev, h)
           | victims \<Rightarrow> (None, h\<lparr>k_links := k_without victims (k_links h)\<rparr>))"

definition k_netns_remove :: "string \<Rightarrow> 'f khost \<Rightarrow> string option \<times> 'f khost" where
  "k_netns_remove ns h =
     (if ns \<notin> set (k_netns h) then (Some ''No such file or directory'', h)
      else if \<not> k_privileged h then (Some eperm, h)
      else (None, h\<lparr>k_netns := removeAll ns (k_netns h),
                     k_links := k_without (filter (\<lambda>i. k_ns i = Some ns) (k_links h)) (k_links h)\<rparr>))"

definition k_set_qdisc ::
  "string option \<Rightarrow> nat \<Rightarrow> 'f pydict option \<Rightarrow> 'f kiface list \<Rightarrow> 'f kiface list" where
  "k_set_qdisc ctx idx q links = map (\<lambda>i. if k_at ctx idx i then i\<lparr>k_qdisc := q\<rparr> else i) links"

text \<open>
  Traffic control on the reference host, in the order pyroute2 and the kernel answer. A
  parent given as text is looked up before anything is sent, and a name that is no
  handle raises \<open>KeyError\<close>, whose text is the quoted name. The kernel then refuses a
  caller without privilege, a kind that is no queueing discipline (only \<open>netem\<close> is
  one here; no kind at all is accepted for a removal), and an index that is no interface
  of the namespace. An accepted \<open>add\<close> installs the keywords other than \<open>parent\<close> as the
  root configuration unless one is installed; an accepted \<open>del\<close> removes the one
  installed.
\<close>

definition quoted :: "string \<Rightarrow> string" where
  "quoted s = [CHR 0x27] @ s @ [CHR 0x27]"

definition einval :: string where
  "einval = ''Invalid argument''"

definition k_tc :: "string option \<Rightarrow> 'f tc_request \<Rightarrow> 'f khost \<Rightarrow> string option \<times> 'f khost" where
  "k_tc ctx req h =
     (case map_of (tc_kwarg req) ''parent'' of
        Some (PStr s) \<Rightarrow> (Some (quoted s), h)
      | _ \<Rightarrow>
          (if \<not> k_privileged h then (Some eperm, h)
           else if tc_kind req \<noteq> None \<and> tc_kind req \<noteq> Some ''netem'' then (Some einval, h)
           else if \<not> (\<exists>i \<in> set (k_links h). k_at ctx (tc_index req) i) then (Some enodev, h)
           else if tc_command req = ''add'' then
             (if tc_kind req = None then (Some einval, h)
              else if \<exists>i \<in> set (k_links h). k_at ctx (tc_index req) i \<and> k_qdisc i \<noteq> None
                then (Some ''File exists'', h)
              else (None, h\<lparr>k_links :=
                      k_set_qdisc ctx (tc_index req) (Some (AList.delete ''parent'' (tc_kwarg req)))
                        (k_links h)\<rparr>))
           else if tc_command req = ''del'' then
             (if \<forall>i \<in> set (k_links h). k_at ctx (tc_index req) i \<longrightarrow> k_qdisc i = None
                then (Some einval, h)
              else (None, h\<lparr>k_links := k_set_qdisc ctx (tc_index req) None (k_links h)\<rparr>))
           else (Some einval, h)))"

definition kernel :: "('f khost, 'f) netctl" where
  "kernel =
     \<lparr> ns_open = k_ns_open,
       link_lookup = k_link_lookup,
       link_add_veth = k_link_add_veth,
       link_set_ns = k_link_set_ns,
       link_up = k_link_up,
       addr_add = k_addr_add,
       link_del = k_link_del,
       netns_remove = k_netns_remove,
       tc = k_tc \<rparr>"

text \<open>
  The emulation configuration active on the interface of that name in that context: the
  root configuration of the first such interface, if there is one.
\<close>

definition active_config :: "'f khost \<Rightarrow> string option \<Rightarrow> string \<Rightarrow> 'f pydict option" where
  "active_config h ctx name =
     (case filter (k_named ctx name) (k_links h) of [] \<Rightarrow> None | i # _ \<Rightarrow> k_qdisc i)"

definition has_interface :: "'f khost \<Rightarrow> string option \<Rightarrow> string \<Rightarrow> bool" where
  "has_interface h ctx name = (\<exists>i \<in> set (k_links h). k_named ctx name i)"

text \<open>A manager that has registered nothing yet.\<close>

definition mgr0 :: manager where
  "mgr0 = \<lparr>created_namespaces = [], created_interfaces = []\<rparr>"

text \<open>
  The topology of \<open>runner.py\<close> on the reference host: the namespaces \<open>client\<close> and
  \<open>server\<close> linked by \<open>veth-ient\<close> and \<open>veth-rver\<close>, with a loss configuration
  on the client's interface (installed from outside the harness, with the \<open>tc\<close>
  command).
\<close>

definition linked_host :: "rat khost" where
  "linked_host =
     \<lparr> k_netns = [''client'', ''server''],
       k_links =
         [\<lparr>k_index = 1, k_name = ''lo'', k_ns = None, k_peer = None, k_qdisc = None\<rparr>,
          \<lparr>k_index = 1, k_name = ''lo'', k_ns = Some ''client'', k_peer = None, k_qdisc = None\<rparr>,
          \<lparr>k_index = 1, k_name = ''lo'', k_ns = Some ''server'', k_peer = None, k_qdisc = None\<rparr>,
          \<lparr>k_index = 2, k_name = ''veth-ient'', k_ns = Some ''client'', k_peer = Some 3,
            k_qdisc = Some [(''loss'', PFloat 5)]\<rparr>,
          \<lparr>k_index = 3, k_name = ''veth-rver'', k_ns = Some ''server'', k_peer = Some 2,
            k_qdisc = None\<rparr>],
       k_privileged = True \<rparr>"


text \<open>
  Two more hosts for evaluation: one where the pair of \<open>runner.py\<close> sits in the default
  namespace and the caller has no privilege, and a privileged one where only the
  namespace \<open>client\<close> exists.
\<close>

definition stale_host :: "rat khost" where
  "stale_host =
     \<lparr> k_netns = [],
       k_links =
         [\<lparr>k_index = 1, k_name = ''lo'', k_ns = None, k_peer = None, k_qdisc = None\<rparr>,
          \<lparr>k_index = 2, k_name = ''veth-ient'', k_ns = None, k_peer = Some 3, k_qdisc = None\<rparr>,
          \<lparr>k_index = 3, k_name = ''veth-rver'', k_ns = None, k_peer = Some 2, k_qdisc = None\<rparr>],
       k_privileged = False \<rparr>"

definition client_host :: "rat khost" where
  "client_host =
     \<lparr> k_netns = [''client''],
       k_links =
         [\<lparr>k_index = 1, k_name = ''lo'', k_ns = None, k_peer = None, k_qdisc = None\<rparr>,
          \<lparr>k_index = 1, k_name = ''lo'', k_ns = Some ''client'', k_peer = None, k_qdisc = None\<rparr>],
       k_privileged = True \<rparr>"

text \<open>Operating-system environments for evaluation: the named namespaces exist.\<close>

definition env_of :: "string list \<Rightarrow> os_env" where
  "env_of names = \<lparr>ns_exists = (\<lambda>n. n \<in> set names), setns_error = (\<lambda>_. None)\<rparr>"

section \<open>Verified properties: cross-context execution\<close>

lemma run_in_ns_result:
  "snd (run_in_ns env ns t) =
     (if \<not> ns_exists env ns then
        Inl (''Error in namespace '' @ ns @ '': Namespace '' @ ns @ '' not found'')
      else case setns_error env ns of
        Some e \<Rightarrow> Inl (''Error in namespace '' @ ns @ '': '' @ e)
      | None \<Rightarrow> (case t of
           Returns v \<Rightarrow> Inr v
         | Raises e \<Rightarrow> Inl (''Error in namespace '' @ ns @ '': '' @ e)
         | Dies \<Rightarrow> Inl ''Process died without returning result''))"
  by (simp add: run_in_ns_def target_wrapper_def split: option.splits outcome.splits)

lemma run_in_ns_trace:
  "fst (run_in_ns env ns t) = Start ns # fst (target_wrapper env ns t) @ [Join ns]"
  by (simp add: run_in_ns_def Let_def split: prod.splits list.splits message.splits)

lemma unit_invokes:
  "ns_exists env a \<Longrightarrow> setns_error env a = None \<Longrightarrow>
     fst (target_wrapper env a t) = [EnterNs a, Invoke a]"
  by (simp add: target_wrapper_def split: outcome.splits)

lemma run_in_ns_call_delivered:
  "unit_exit P (snd (target_wrapper_posting env ns (Some t))) = Some (snd (target_wrapper env ns t)) \<Longrightarrow>
     run_in_ns_call P env ns (Some t) = (fst (run_in_ns env ns t), Some (snd (run_in_ns env ns t)))"
  by (auto simp add: run_in_ns_call_def run_in_ns_def target_wrapper_posting_def target_wrapper_def
      Let_def split: option.splits outcome.splits prod.splits if_splits)

lemma large_result_blocks_the_call:
  "run_in_ns_call byte_pipe (env_of [''client'']) ''client''
     (Some (Returns (replicate 70000 (CHR ''A'')))) =
   ([Start ''client'', EnterNs ''client'', Invoke ''client''], None)"
  by (simp add: run_in_ns_call_def target_wrapper_posting_def unit_exit_def byte_pipe_def env_of_def)




text \<open>
  C7, as stated, fails: for a namespace that does not exist the process is started all
  the same.
\<close>

theorem run_in_ns_missing_namespace_spawns:
  "Start ''ghost'' \<in> set (fst (run_in_ns (env_of []) ''ghost'' (Returns (0 :: nat)))) \<and>
   \<not> ns_exists (env_of []) ''ghost''"
  by (simp add: run_in_ns_trace env_of_def)

text \<open>
  C7, amended. For every call of \<open>run_in_ns\<close> whose target namespace does not exist, a
  unit is started and joined; it enters no namespace and does not invoke the job, and
  the call raises an \<open>Exception\<close> whose text is
  \<open>Error in namespace <ns>: Namespace <ns> not found\<close>.
\<close>

theorem run_in_ns_missing_namespace:
  "\<not> ns_exists env ns \<Longrightarrow>
     run_in_ns env ns t =
       ([Start ns, Join ns],
        Inl (''Error in namespace '' @ ns @ '': Namespace '' @ ns @ '' not found'')) \<and>
     fst (target_wrapper env ns t) = []"
  by (simp add: run_in_ns_def target_wrapper_def)

theorem run_in_ns_missing_namespace_witness:
  "run_in_ns (env_of []) ''ghost'' (Returns (0 :: nat)) =
     ([Start ''ghost'', Join ''ghost''],
      Inl ''Error in namespace ghost: Namespace ghost not found'')"
  using run_in_ns_missing_namespace [of "env_of []" "''ghost''" "Returns (0 :: nat)"]
  by (simp add: env_of_def)

section \<open>Verified properties: protocol assertions\<close>

lemma handshake_trace:
  "fst (test_tcp_handshake env a b sniff send) =
     [Start b, Sleep 1] @ fst (run_in_ns env a send) @
     [case snd (run_in_ns env a send) of Inl _ \<Rightarrow> Terminate b | Inr _ \<Rightarrow> Join b]"
  by (simp add: test_tcp_handshake_def Let_def split: prod.splits sum.splits)

lemma mtu_trace:
  "fst (test_mtu_fragmentation env a b sniff send) =
     [Start b, Sleep 1] @ fst (run_in_ns env a send) @
     (case snd (run_in_ns env a send) of Inl _ \<Rightarrow> [] | Inr _ \<Rightarrow> [Join b])"
  by (simp add: test_mtu_fragmentation_def Let_def split: prod.splits sum.splits)

text \<open>
  C1, as stated, fails: with node B's namespace missing the capture unit never invokes
  the sniffer, yet the SYN is sent from node A, and the assertion fails with the
  sniffer's error, not with a timeout.
\<close>

theorem stimulus_sent_to_deaf_capture:
  "Invoke ''server'' \<notin> set (fst (target_wrapper (env_of [''client'']) ''server'' (Returns [0 :: nat]))) \<and>
   test_tcp_handshake (env_of [''client'']) ''client'' ''server'' (Returns [0 :: nat]) (Returns (0 :: nat)) =
     ([Start ''server'', Sleep 1, Start ''client'', EnterNs ''client'', Invoke ''client'',
       Join ''client'', Join ''server''],
      Inl (AssertionError ''Sniffer error on Node B: Namespace server not found''))"
  by (simp add: test_tcp_handshake_def run_in_ns_def target_wrapper_def env_of_def)

text \<open>
  C1, amended. In both protocol assertions the coordinator starts node B's capture unit,
  sleeps one second and then starts the stimulus unit of node A, whatever the capture
  unit does: there is no readiness signal and no startup timeout, and whenever node A's
  namespace exists and can be entered the stimulus job is invoked.
\<close>

theorem stimulus_after_fixed_sleep:
  "(\<exists>rest. fst (test_tcp_handshake env a b sniff send) = Start b # Sleep 1 # Start a # rest) \<and>
   (\<exists>rest. fst (test_mtu_fragmentation env a b sniff' send') = Start b # Sleep 1 # Start a # rest) \<and>
   (ns_exists env a \<and> setns_error env a = None \<longrightarrow>
      Invoke a \<in> set (fst (test_tcp_handshake env a b sniff send)) \<and>
      Invoke a \<in> set (fst (test_mtu_fragmentation env a b sniff' send')))"
  by (simp add: handshake_trace mtu_trace run_in_ns_trace unit_invokes)

theorem stimulus_after_fixed_sleep_witness:
  "Invoke ''client'' \<in> set (fst (test_tcp_handshake (env_of [''client'', ''server'']) ''client'' ''server''
      (Raises ''no such device'' :: nat list outcome) (Returns (0 :: nat)))) \<and>
   Invoke ''client'' \<in> set (fst (test_mtu_fragmentation (env_of [''client'', ''server'']) ''client'' ''server''
      (Raises ''no such device'' :: nat list outcome) (Returns (0 :: nat))))"
  using stimulus_after_fixed_sleep [of "env_of [''client'', ''server'']" "''client''" "''server''"
      "Raises ''no such device'' :: nat list outcome" "Returns (0 :: nat)"
      "Raises ''no such device'' :: nat list outcome" "Returns (0 :: nat)"]
  by (simp add: env_of_def)

section \<open>Verified properties: translation of a profile\<close>

lemma parse_latency_falsy:
  "\<not> truthy B (py_get profile ''latency'') \<Longrightarrow> parse_latency B profile opts = opts"
  by (simp add: parse_latency_def)

lemma parse_latency_dict:
  "py_get profile ''latency'' = PDict d \<Longrightarrow> d \<noteq> [] \<Longrightarrow>
     parse_latency B profile [] =
       [(''delay'', py_get_default d ''delay'' (PStr ''0ms'')),
        (''jitter'', py_get_default d ''jitter'' (PStr ''0ms''))]"
  by (simp add: parse_latency_def)

lemma parse_latency_str:
  "py_get profile ''latency'' = PStr s \<Longrightarrow> s \<noteq> [] \<Longrightarrow>
     parse_latency B profile [] = [(''delay'', PStr s)]"
  by (simp add: parse_latency_def)

lemma parse_loss_cases:
  "py_get profile ''loss'' = PNone \<or> (\<exists>y. py_float B (py_get profile ''loss'') = Inr y) \<Longrightarrow>
     \<exists>opts'. parse_loss B profile opts = Inr opts' \<and>
       map_of opts' ''delay'' = map_of opts ''delay'' \<and>
       map_of opts' ''jitter'' = map_of opts ''jitter'' \<and>
       map_of opts' ''reorder'' = map_of opts ''reorder''"
  by (auto simp add: parse_loss_def Let_def update_conv')

lemma in_keys_iff: "(k \<in> fst ` set al) = (map_of al k \<noteq> None)"
  by (simp add: map_of_eq_None_iff)

lemma parse_reorder_floor:
  "py_get profile ''reorder'' = r \<Longrightarrow> r \<noteq> PNone \<Longrightarrow> py_float B r = Inr x \<Longrightarrow>
   map_of opts ''delay'' = None \<Longrightarrow>
     \<exists>opts'. parse_reorder B interface profile opts = Inr (opts', [ReorderDelayAdded interface]) \<and>
       map_of opts' ''delay'' = Some (PStr ''10ms'') \<and>
       map_of opts' ''reorder'' = Some (PFloat x) \<and>
       map_of opts' ''jitter'' = map_of opts ''jitter''"
  by (simp add: parse_reorder_def Let_def in_keys_iff update_conv')

lemma parse_reorder_keep:
  "py_get profile ''reorder'' = r \<Longrightarrow> r \<noteq> PNone \<Longrightarrow> py_float B r = Inr x \<Longrightarrow>
   map_of opts ''delay'' = Some d \<Longrightarrow>
     \<exists>opts'. parse_reorder B interface profile opts = Inr (opts', []) \<and>
       map_of opts' ''delay'' = Some d \<and>
       map_of opts' ''reorder'' = Some (PFloat x)"
  by (simp add: parse_reorder_def Let_def in_keys_iff update_conv')

lemma latency_mapping_translation:
  "py_get profile ''latency'' = PDict d \<Longrightarrow> map_of d ''delay'' = Some dl \<Longrightarrow>
   map_of d ''jitter'' = Some j \<Longrightarrow> py_get profile ''loss'' = PNone \<Longrightarrow>
   py_get profile ''reorder'' = PNone \<Longrightarrow>
     translate_profile B interface profile = Inr ([(''delay'', dl), (''jitter'', j)], [])"
  by (cases d)
     (simp_all add: translate_profile_def parse_latency_def parse_loss_def parse_reorder_def
        py_get_default_def)

text \<open>
  C4, as stated, fails: a profile that sets \<open>reorder\<close> and gives a latency mapping with a
  jitter but no delay is translated with the delay \<open>0ms\<close>, not \<open>10ms\<close>, and nothing is
  logged.
\<close>

theorem reorder_without_delay_key_gets_0ms:
  "translate_profile exact_builtins ''veth-ient''
     [(''latency'', PDict [(''jitter'', PStr ''5ms'')]), (''reorder'', PInt 10)] =
   Inr ([(''delay'', PStr ''0ms''), (''jitter'', PStr ''5ms''), (''reorder'', PFloat 10)], [])"
  by (simp add: translate_profile_def parse_latency_def parse_loss_def parse_reorder_def
      py_get_def py_get_default_def exact_builtins_def)

text \<open>
  C4, amended. For every profile in which \<open>reorder\<close> is set and the \<open>latency\<close> entry is
  absent or not truthy (\<open>None\<close>, empty, zero), and whose \<open>reorder\<close> and \<open>loss\<close> values
  \<open>float\<close> accepts, the translated configuration has the delay \<open>10ms\<close>, the reorder value
  as a float and no jitter, and the substitution is logged as a warning. The witness is
  the profile \<open>{reorder: 10}\<close>.
\<close>

theorem reorder_floor_delay:
  assumes "py_get profile ''reorder'' = r" and "r \<noteq> PNone" and "py_float B r = Inr x"
    and "\<not> truthy B (py_get profile ''latency'')"
    and "py_get profile ''loss'' = PNone \<or> (\<exists>y. py_float B (py_get profile ''loss'') = Inr y)"
  shows "\<exists>opts. translate_profile B interface profile = Inr (opts, [ReorderDelayAdded interface]) \<and>
           map_of opts ''delay'' = Some (PStr ''10ms'') \<and>
           map_of opts ''reorder'' = Some (PFloat x) \<and>
           map_of opts ''jitter'' = None"
proof -
  have lat: "parse_latency B profile [] = []"
    using assms(4) by (rule parse_latency_falsy)
  obtain o1 where o1: "parse_loss B profile [] = Inr o1"
    and d1: "map_of o1 ''delay'' = None" and j1: "map_of o1 ''jitter'' = None"
    using parse_loss_cases [OF assms(5), of "[]"] by auto
  obtain o2 where "parse_reorder B interface profile o1 = Inr (o2, [ReorderDelayAdded interface])"
    and "map_of o2 ''delay'' = Some (PStr ''10ms'')"
    and "map_of o2 ''reorder'' = Some (PFloat x)"
    and "map_of o2 ''jitter'' = map_of o1 ''jitter''"
    using parse_reorder_floor [OF assms(1-3) d1] by blast
  then show ?thesis
    by (simp add: translate_profile_def lat o1 j1)
qed

theorem reorder_floor_delay_witness:
  "translate_profile exact_builtins ''veth-ient'' [(''reorder'', PInt 10)] =
     Inr ([(''reorder'', PFloat 10), (''delay'', PStr ''10ms'')], [ReorderDelayAdded ''veth-ient''])"
proof -
  have "py_float exact_builtins (PInt 10) = Inr 10"
    by (simp add: exact_builtins_def)
  then have "\<exists>opts. translate_profile exact_builtins ''veth-ient'' [(''reorder'', PInt 10)]
        = Inr (opts, [ReorderDelayAdded ''veth-ient'']) \<and>
      map_of opts ''delay'' = Some (PStr ''10ms'') \<and>
      map_of opts ''reorder'' = Some (PFloat 10) \<and> map_of opts ''jitter'' = None"
    using reorder_floor_delay [of "[(''reorder'', PInt 10)]" "PInt 10" exact_builtins 10 "''veth-ient''"]
    by (simp add: py_get_def)
  then show ?thesis
    by (simp add: translate_profile_def parse_latency_def parse_loss_def parse_reorder_def
        py_get_def exact_builtins_def)
qed

text \<open>
  C5. At the profile of the command line's \<open>latency\<close> choice,
  \<open>{'latency': '100ms', 'jitter': '20ms'}\<close>, the translated configuration is
  \<open>{delay: '100ms'}\<close> alone: the top-level key \<open>jitter\<close> is never read, where the claim
  promises \<open>{delay: '100ms', jitter: '20ms'}\<close>.
\<close>

theorem cli_latency_profile_drops_jitter:
  "translate_profile B interface [(''latency'', PStr ''100ms''), (''jitter'', PStr ''20ms'')] =
     Inr ([(''delay'', PStr ''100ms'')], [])"
  by (simp add: translate_profile_def parse_latency_def parse_loss_def parse_reorder_def py_get_def)

text \<open>
  C10, as stated, fails at the empty mapping: it is not truthy, so no default is filled
  in, and with \<open>reorder\<close> set the floor of \<open>10ms\<close> is applied.
\<close>

theorem empty_mapping_latency_gets_floor:
  "translate_profile exact_builtins ''veth-ient'' [(''latency'', PDict []), (''reorder'', PInt 10)] =
   Inr ([(''reorder'', PFloat 10), (''delay'', PStr ''10ms'')], [ReorderDelayAdded ''veth-ient''])"
  by (simp add: translate_profile_def parse_latency_def parse_loss_def parse_reorder_def
      py_get_def exact_builtins_def)

text \<open>
  C10, amended. For every profile whose \<open>latency\<close> is a non-empty mapping, the delay and
  the jitter are taken from the mapping, a missing key giving \<open>0ms\<close>; consequently, when
  such a mapping lacks the key \<open>delay\<close> and \<open>reorder\<close> is set (to a value \<open>float\<close>
  accepts, like the loss), the translated delay is \<open>0ms\<close> and the floor is not applied:
  no warning is logged.
\<close>

theorem mapping_latency_defaults:
  assumes "py_get profile ''latency'' = PDict d" and "d \<noteq> []"
  shows "parse_latency B profile [] =
           [(''delay'', py_get_default d ''delay'' (PStr ''0ms'')),
            (''jitter'', py_get_default d ''jitter'' (PStr ''0ms''))] \<and>
         (map_of d ''delay'' = None \<longrightarrow> py_get_default d ''delay'' (PStr ''0ms'') = PStr ''0ms'') \<and>
         (map_of d ''jitter'' = None \<longrightarrow> py_get_default d ''jitter'' (PStr ''0ms'') = PStr ''0ms'') \<and>
         (map_of d ''delay'' = None \<and> py_get profile ''reorder'' \<noteq> PNone \<and>
          py_float B (py_get profile ''reorder'') = Inr x \<and>
          (py_get profile ''loss'' = PNone \<or> (\<exists>y. py_float B (py_get profile ''loss'') = Inr y)) \<longrightarrow>
            (\<exists>opts. translate_profile B interface profile = Inr (opts, []) \<and>
               map_of opts ''delay'' = Some (PStr ''0ms'') \<and>
               map_of opts ''reorder'' = Some (PFloat x)))"
proof (intro conjI impI)
  show lat: "parse_latency B profile [] =
           [(''delay'', py_get_default d ''delay'' (PStr ''0ms'')),
            (''jitter'', py_get_default d ''jitter'' (PStr ''0ms''))]"
    using assms by (rule parse_latency_dict)
  show "py_get_default d ''delay'' (PStr ''0ms'') = PStr ''0ms''" if "map_of d ''delay'' = None"
    using that by (simp add: py_get_default_def)
  show "py_get_default d ''jitter'' (PStr ''0ms'') = PStr ''0ms''" if "map_of d ''jitter'' = None"
    using that by (simp add: py_get_default_def)
  assume h: "map_of d ''delay'' = None \<and> py_get profile ''reorder'' \<noteq> PNone \<and>
          py_float B (py_get profile ''reorder'') = Inr x \<and>
          (py_get profile ''loss'' = PNone \<or> (\<exists>y. py_float B (py_get profile ''loss'') = Inr y))"
  then have loss: "py_get profile ''loss'' = PNone \<or> (\<exists>y. py_float B (py_get profile ''loss'') = Inr y)"
    by simp
  obtain o1 where o1: "parse_loss B profile (parse_latency B profile []) = Inr o1"
    and d1: "map_of o1 ''delay'' = map_of (parse_latency B profile []) ''delay''"
    using parse_loss_cases [OF loss, of "parse_latency B profile []"] by auto
  have d1': "map_of o1 ''delay'' = Some (PStr ''0ms'')"
    using h by (simp add: d1 lat py_get_default_def)
  obtain o2 where "parse_reorder B interface profile o1 = Inr (o2, [])"
    and "map_of o2 ''delay'' = Some (PStr ''0ms'')"
    and "map_of o2 ''reorder'' = Some (PFloat x)"
    using parse_reorder_keep [OF refl _ _ d1', of profile B x interface] h by blast
  then show "\<exists>opts. translate_profile B interface profile = Inr (opts, []) \<and>
               map_of opts ''delay'' = Some (PStr ''0ms'') \<and>
               map_of opts ''reorder'' = Some (PFloat x)"
    by (simp add: translate_profile_def o1)
qed

theorem mapping_latency_defaults_witness:
  "parse_latency exact_builtins
     [(''latency'', PDict [(''jitter'', PStr ''5ms'')]), (''reorder'', PInt 10)] [] =
     [(''delay'', PStr ''0ms''), (''jitter'', PStr ''5ms'')] \<and>
   (\<exists>opts. translate_profile exact_builtins ''veth-ient''
        [(''latency'', PDict [(''jitter'', PStr ''5ms'')]), (''reorder'', PInt 10)] = Inr (opts, []) \<and>
      map_of opts ''delay'' = Some (PStr ''0ms'') \<and> map_of opts ''reorder'' = Some (PFloat 10))"
  using mapping_latency_defaults [of "[(''latency'', PDict [(''jitter'', PStr ''5ms'')]), (''reorder'', PInt 10)]"
      "[(''jitter'', PStr ''5ms'')]" exact_builtins 10 "''veth-ient''"]
  by (simp add: py_get_def py_get_default_def exact_builtins_def)

section \<open>Verified properties: the conditioner on the reference host\<close>

lemma kernel_sel [simp]:
  "ns_open kernel = k_ns_open" "link_lookup kernel = k_link_lookup"
  "link_add_veth kernel = k_link_add_veth" "link_set_ns kernel = k_link_set_ns"
  "link_up kernel = k_link_up" "addr_add kernel = k_addr_add"
  "link_del kernel = k_link_del" "netns_remove kernel = k_netns_remove"
  "tc kernel = k_tc"
  by (simp_all add: kernel_def)

lemma add_request_refused:
  "k_tc ctx (add_netem_request idx netem_options) h = (Some (quoted ''root''), h)"
  by (simp add: k_tc_def add_netem_request_def)

lemma del_request_refused:
  "k_tc ctx (del_root_request idx) h = (Some (if k_privileged h then einval else eperm), h)"
  by (simp add: k_tc_def del_root_request_def)

lemma well_formed_requests_work:
  "active_config
     (snd (k_tc (Some ''client'')
        \<lparr>tc_command = ''del'', tc_kind = None, tc_index = 2, tc_handle = PInt 0, tc_kwarg = []\<rparr>
        linked_host))
     (Some ''client'') ''veth-ient'' = None"
  "active_config
     (snd (k_tc (Some ''client'')
        \<lparr>tc_command = ''add'', tc_kind = Some ''netem'', tc_index = 2, tc_handle = PStr ''1:'',
          tc_kwarg = [(''loss'', PFloat 100)]\<rparr>
        (snd (k_tc (Some ''client'')
           \<lparr>tc_command = ''del'', tc_kind = None, tc_index = 2, tc_handle = PInt 0, tc_kwarg = []\<rparr>
           linked_host))))
     (Some ''client'') ''veth-ient'' = Some [(''loss'', PFloat 100)]"
  by (simp_all add: k_tc_def linked_host_def active_config_def k_set_qdisc_def k_at_def k_named_def)

lemma apply_netem_refused:
  "get_ip_route kernel namespace h = (None, h1) \<Longrightarrow>
   k_link_lookup (conditioner_ctx namespace) interface h1 = Inr (idx # others) \<Longrightarrow>
     apply_netem kernel namespace interface profile netem_options h =
       (Some (quoted ''root''), h1, [])"
  by (simp add: apply_netem_def del_request_refused add_request_refused)

lemma clear_netem_refused:
  "get_ip_route kernel namespace h = (None, h1) \<Longrightarrow>
   k_link_lookup (conditioner_ctx namespace) interface h1 = Inr (idx # others) \<Longrightarrow>
     clear_netem kernel namespace interface h =
       (Some (if k_privileged h1 then einval else eperm), h1, [])"
  by (simp add: clear_netem_def del_request_refused)

lemma active_config_opened:
  "active_config (snd (get_ip_route kernel namespace h)) ctx name = active_config h ctx name"
  by (cases "filter (k_named ctx name) (k_links h)")
     (simp_all add: get_ip_route_def k_ns_open_def active_config_def k_loopback_def
        split: option.splits)

lemma apply_netem_host:
  "fst (snd (apply_netem kernel namespace interface profile netem_options h)) =
     snd (get_ip_route kernel namespace h)"
  by (cases "get_ip_route kernel namespace h")
     (auto simp add: apply_netem_def del_request_refused add_request_refused
        split: option.splits sum.splits list.splits)

lemma clear_netem_host:
  "fst (snd (clear_netem kernel namespace interface h)) = snd (get_ip_route kernel namespace h)"
  by (cases "get_ip_route kernel namespace h")
     (auto simp add: clear_netem_def del_request_refused split: option.splits sum.splits list.splits)

lemma apply_profile_keeps_configuration:
  "active_config (fst (snd (apply_profile B kernel namespace interface profile h))) ctx name =
     active_config h ctx name"
proof (cases "translate_profile B interface profile")
  case (Inl e)
  then show ?thesis by (simp add: apply_profile_def)
next
  case (Inr r)
  obtain netem_options warned where r: "r = (netem_options, warned)"
    by (cases r)
  show ?thesis
  proof (cases "netem_options = []")
    case True
    then show ?thesis by (simp add: apply_profile_def Inr r)
  next
    case False
    have "fst (snd (apply_profile B kernel namespace interface profile h)) =
          fst (snd (apply_netem kernel namespace interface profile netem_options h))"
      using False by (simp add: apply_profile_def Inr r split: prod.splits option.splits)
    then show ?thesis
      by (simp add: apply_netem_host active_config_opened)
  qed
qed

lemma clear_impairments_keeps_configuration:
  "active_config (fst (snd (clear_impairments kernel namespace interface h))) ctx name =
     active_config h ctx name"
proof -
  have "fst (snd (clear_impairments kernel namespace interface h)) =
        fst (snd (clear_netem kernel namespace interface h))"
    by (simp add: clear_impairments_def split: prod.splits option.splits)
  then show ?thesis
    by (simp add: clear_netem_host active_config_opened)
qed

lemma clear_never_raises:
  "fst (clear_impairments ctl namespace interface h) = None"
  by (simp add: clear_impairments_def split: prod.splits option.splits)

lemma linked_host_lookup:
  "get_ip_route kernel (Some ''client'') linked_host = (None, linked_host)"
  "k_link_lookup (conditioner_ctx (Some ''client'')) ''veth-ient'' linked_host = Inr [2]"
  "k_privileged linked_host"
  by (simp_all add: get_ip_route_def conditioner_ctx_def k_ns_open_def k_link_lookup_def
      k_named_def linked_host_def)

text \<open>
  C6. On the linked topology, where a loss configuration is active on the client's
  interface, applying the profile of the command line's \<open>reorder\<close> choice raises: the
  removal request names the kind \<open>root\<close> and is refused, the installation request gives
  the parent as the string \<open>root\<close> and raises \<open>KeyError\<close> before it is sent. Nothing
  is installed and the old configuration stays active, where the claim promises exactly
  the new one.
\<close>

theorem apply_profile_installs_nothing:
  "apply_profile exact_builtins kernel (Some ''client'') ''veth-ient''
     [(''reorder'', PInt 10), (''latency'', PStr ''10ms'')] linked_host =
     (Some (quoted ''root''), linked_host, [ApplyFailed ''veth-ient'' (quoted ''root'')]) \<and>
   active_config linked_host (Some ''client'') ''veth-ient'' = Some [(''loss'', PFloat 5)]"
proof -
  have t: "translate_profile exact_builtins ''veth-ient''
             [(''reorder'', PInt 10), (''latency'', PStr ''10ms'')] =
           Inr ([(''delay'', PStr ''10ms''), (''reorder'', PFloat 10)], [])"
    by (simp add: translate_profile_def parse_latency_def parse_loss_def parse_reorder_def
        py_get_def exact_builtins_def)
  have a: "active_config linked_host (Some ''client'') ''veth-ient'' = Some [(''loss'', PFloat 5)]"
    by (simp add: active_config_def linked_host_def k_named_def)
  show ?thesis
    by (simp add: apply_profile_def t a
        apply_netem_refused [OF linked_host_lookup(1) linked_host_lookup(2)])
qed

text \<open>
  C9. On the linked topology, where a loss configuration is active on the client's
  interface, \<open>clear_impairments\<close> returns without raising, but its removal request names
  the kind \<open>root\<close> and is refused: the exception goes to the debug log and the
  configuration is still active, where the claim promises that it is removed.
\<close>

theorem clear_impairments_removes_nothing:
  "clear_impairments kernel (Some ''client'') ''veth-ient'' linked_host =
     (None, linked_host, [CouldNotClear ''Invalid argument'']) \<and>
   active_config linked_host (Some ''client'') ''veth-ient'' = Some [(''loss'', PFloat 5)]"
proof -
  have a: "active_config linked_host (Some ''client'') ''veth-ient'' = Some [(''loss'', PFloat 5)]"
    by (simp add: active_config_def linked_host_def k_named_def)
  show ?thesis
    by (simp add: clear_impairments_def a einval_def linked_host_lookup(3)
        clear_netem_refused [OF linked_host_lookup(1) linked_host_lookup(2)])
qed

section \<open>Verified properties: the namespace manager\<close>









lemma client_host_link:
  "link_nodes kernel mgr0 ''client'' ''server'' ''10.0.0.1'' ''10.0.0.2'' 24 client_host =
     (Some ''No such file or directory'',
      client_host\<lparr>k_links := k_links client_host @
        [\<lparr>k_index = 2, k_name = ''veth-ient'', k_ns = Some ''client'', k_peer = Some 3, k_qdisc = None\<rparr>,
         \<lparr>k_index = 3, k_name = ''veth-rver'', k_ns = None, k_peer = Some 2, k_qdisc = None\<rparr>]\<rparr>,
      \<lparr>created_namespaces = [], created_interfaces = [''veth-ient'']\<rparr>,
      [LinkFailed ''client'' ''server'' ''No such file or directory''])"
  by (simp add: link_nodes_def Let_def last4_def move_and_configure_def bind_act_def call_def
      first_index_def k_link_add_veth_def k_link_lookup_def k_link_set_ns_def k_named_def k_at_def
      k_fresh_def client_host_def mgr0_def)




text \<open>
  C8, as stated, fails: \<open>link_nodes\<close> creates two interfaces and registers one name. When
  the move of the second endpoint fails (the namespace \<open>server\<close> does not exist), the
  peer \<open>veth-rver\<close> exists in the default namespace and is not in
  \<open>created_interfaces\<close>.
\<close>

theorem peer_endpoint_not_registered:
  "fst (link_nodes kernel mgr0 ''client'' ''server'' ''10.0.0.1'' ''10.0.0.2'' 24 client_host) =
     Some ''No such file or directory'' \<and>
   has_interface
     (fst (snd (link_nodes kernel mgr0 ''client'' ''server'' ''10.0.0.1'' ''10.0.0.2'' 24 client_host)))
     None ''veth-rver'' \<and>
   ''veth-rver'' \<notin> set (created_interfaces
     (fst (snd (snd (link_nodes kernel mgr0 ''client'' ''server'' ''10.0.0.1'' ''10.0.0.2'' 24
        client_host)))))"
  by (simp add: client_host_link has_interface_def k_named_def)

text \<open>
  C8, amended. For every execution of \<open>link_nodes\<close>, failing or not, and every behaviour
  of the network control capability: when the pair was created, the name of node A's
  endpoint, and only that name, has been appended to \<open>created_interfaces\<close>, whichever
  later step fails; when the creation of the pair fails, \<open>link_nodes\<close> raises and the
  registry is unchanged. The registered namespaces never change.
\<close>

theorem link_nodes_registers_first_endpoint:
  "\<exists>r h' logged reg.
     link_nodes ctl mgr node_a node_b ip_a ip_b subnet_mask h =
       (r, h', mgr\<lparr>created_interfaces := reg\<rparr>, logged) \<and>
     (fst (link_add_veth ctl (''veth-'' @ last4 node_a) (''veth-'' @ last4 node_b) h) = None \<longrightarrow>
        reg = created_interfaces mgr @ [''veth-'' @ last4 node_a]) \<and>
     (fst (link_add_veth ctl (''veth-'' @ last4 node_a) (''veth-'' @ last4 node_b) h) \<noteq> None \<longrightarrow>
        reg = created_interfaces mgr \<and> r \<noteq> None)"
  by (cases "link_add_veth ctl (''veth-'' @ last4 node_a) (''veth-'' @ last4 node_b) h")
     (auto simp add: link_nodes_def Let_def split: option.splits prod.splits sum.splits)

theorem link_nodes_registers_first_endpoint_witness:
  "fst (k_link_add_veth ''veth-ient'' ''veth-rver'' client_host) = None \<and>
   fst (link_nodes kernel mgr0 ''client'' ''server'' ''10.0.0.1'' ''10.0.0.2'' 24 client_host) \<noteq> None \<and>
   created_interfaces
     (fst (snd (snd (link_nodes kernel mgr0 ''client'' ''server'' ''10.0.0.1'' ''10.0.0.2'' 24
        client_host)))) = [''veth-ient''] \<and>
   fst (k_link_add_veth ''veth-ient'' ''veth-rver'' stale_host) \<noteq> None \<and>
   fst (link_nodes kernel mgr0 ''client'' ''server'' ''10.0.0.1'' ''10.0.0.2'' 24 stale_host) \<noteq> None \<and>
   created_interfaces
     (fst (snd (snd (link_nodes kernel mgr0 ''client'' ''server'' ''10.0.0.1'' ''10.0.0.2'' 24
        stale_host)))) = []"
proof -
  have a: "fst (k_link_add_veth ''veth-ient'' ''veth-rver'' client_host) = None"
    by (simp add: k_link_add_veth_def client_host_def k_named_def Let_def)
  have b: "fst (k_link_add_veth ''veth-ient'' ''veth-rver'' stale_host) \<noteq> None"
    by (simp add: k_link_add_veth_def stale_host_def)
  have 1: "created_interfaces
     (fst (snd (snd (link_nodes kernel mgr0 ''client'' ''server'' ''10.0.0.1'' ''10.0.0.2'' 24
        client_host)))) = [''veth-ient'']"
    using a link_nodes_registers_first_endpoint [of kernel mgr0 "''client''" "''server''"
        "''10.0.0.1''" "''10.0.0.2''" 24 client_host]
    by (auto simp add: last4_def mgr0_def)
  have 2: "fst (link_nodes kernel mgr0 ''client'' ''server'' ''10.0.0.1'' ''10.0.0.2'' 24 stale_host) \<noteq> None \<and>
     created_interfaces
     (fst (snd (snd (link_nodes kernel mgr0 ''client'' ''server'' ''10.0.0.1'' ''10.0.0.2'' 24
        stale_host)))) = []"
    using b link_nodes_registers_first_endpoint [of kernel mgr0 "''client''" "''server''"
        "''10.0.0.1''" "''10.0.0.2''" 24 stale_host]
    by (auto simp add: last4_def mgr0_def)
  show ?thesis
    using a b 1 2 by (simp add: client_host_link)
qed

end
